theory Spec2Isabelle
  imports Main
begin

section \<open>The UI composer (ui-composer/src/app.js)\<close>

text \<open>
  The composer is a Fastify server. At startup it loads the micro-frontend registry
  (\<open>init\<close>), fetches the catalog template (\<open>loadFromS3\<close>), keeps both in two
  module-level variables and starts listening. Each request is dispatched to a route
  handler; \<open>/productdetails\<close> transforms the cached template and streams the result.

  The modules \<open>./config\<close>, \<open>./utils/mfe-loader\<close>, \<open>./utils/html-transformer\<close> and
  \<open>./templates/staticPages\<close> are imported by app.js; what they return is a parameter of
  the model (the record \<open>env\<close>). Asynchronous calls are modelled by their outcome:
  \<open>Inl\<close> for a rejected promise or a thrown exception, \<open>Inr\<close> for the resolved value.
\<close>

subsection \<open>JavaScript values and exceptions\<close>

text \<open>The registry object: the two properties that app.js reads from it.\<close>

record registry =
  template :: string
  templatesBucket :: string

text \<open>
  The values that flow through app.js: a variable declared with \<open>let\<close> and not yet
  assigned is \<open>undefined\<close>; the template and the pages are strings; the registry is an
  object.
\<close>

datatype jsval = Undefined | Str string | Obj registry

datatype error = TypeError string | Error string

text \<open>\<open>String(err)\<close>, the message of \<open>new Error(err)\<close>.\<close>

fun String_of :: "error \<Rightarrow> string" where
  "String_of (TypeError m) = ''TypeError: '' @ m"
| "String_of (Error m) = ''Error: '' @ m"

text \<open>
  Property reads \<open>v.template\<close> and \<open>v.templatesBucket\<close>: on \<open>undefined\<close> they throw
  a TypeError, on a string primitive they give \<open>undefined\<close>.
\<close>

fun prop_template :: "jsval \<Rightarrow> error + jsval" where
  "prop_template Undefined = Inl (TypeError ''Cannot read properties of undefined'')"
| "prop_template (Str s) = Inr Undefined"
| "prop_template (Obj r) = Inr (Str (template r))"

fun prop_templatesBucket :: "jsval \<Rightarrow> error + jsval" where
  "prop_templatesBucket Undefined = Inl (TypeError ''Cannot read properties of undefined'')"
| "prop_templatesBucket (Str s) = Inr Undefined"
| "prop_templatesBucket (Obj r) = Inr (Str (templatesBucket r))"

text \<open>\<open>chunk.toString()\<close>.\<close>

fun toString :: "jsval \<Rightarrow> error + string" where
  "toString Undefined = Inl (TypeError ''Cannot read properties of undefined'')"
| "toString (Str s) = Inr s"
| "toString (Obj r) = Inr ''[object Object]''"

subsection \<open>The imported modules and the process environment\<close>

record env =
  env_PORT :: "string option"
  init :: "error + jsval"
  loadFromS3 :: "jsval \<Rightarrow> jsval \<Rightarrow> error + jsval"
  listen :: "string + nat \<Rightarrow> error + unit"
  transformTemplate :: "jsval \<Rightarrow> error + jsval"
  notFoundPage :: string
  serverErrorPage :: string

text \<open>
  \<open>const PORT = process.env.PORT || 3000\<close>: the environment's string unless it is
  missing or empty.
\<close>

definition PORT :: "env \<Rightarrow> string + nat" where
  "PORT e = (case env_PORT e of
               None \<Rightarrow> Inr 3000
             | Some p \<Rightarrow> if p = [] then Inr 3000 else Inl p)"

subsection \<open>The process: the two cached variables and what the process did\<close>

text \<open>
  What the process does that can be observed from outside app.js: a call of an imported
  function with its arguments, \<open>fastify.listen\<close> with port and host, an assignment to
  one of the two cached variables, a logged error, and the end of the process with an
  exit status.
\<close>

datatype event =
    Call string "jsval list"
  | Listen "string + nat" string
  | Assign string jsval
  | Log error
  | Exit nat

record process =
  MFElist :: jsval
  catalogTemplate :: jsval
  listening :: bool
  exit_code :: "nat option"
  trace :: "event list"

text \<open>\<open>let MFElist, catalogTemplate\<close>: both undefined when the module is loaded.\<close>

definition initial :: process where
  "initial = \<lparr>MFElist = Undefined, catalogTemplate = Undefined, listening = False,
              exit_code = None, trace = []\<rparr>"

definition emit :: "event \<Rightarrow> process \<Rightarrow> process" where
  "emit ev s = s\<lparr>trace := trace s @ [ev]\<rparr>"

subsection \<open>Startup\<close>

text \<open>The \<open>catch\<close> block of \<open>start\<close>: \<open>fastify.log.error(err); process.exit(1)\<close>.\<close>

definition start_failed :: "error \<Rightarrow> process \<Rightarrow> process" where
  "start_failed err s = (emit (Exit 1) (emit (Log err) s))\<lparr>exit_code := Some 1\<rparr>"

definition start :: "env \<Rightarrow> process \<Rightarrow> process" where
  "start e s0 =
    (let s1 = emit (Call ''init'' []) s0 in
     case init e of
       Inl err \<Rightarrow> start_failed err s1
     | Inr v \<Rightarrow>
        (let s2 = emit (Assign ''MFElist'' v) (s1\<lparr>MFElist := v\<rparr>) in
         case prop_template (MFElist s2) of
           Inl err \<Rightarrow> start_failed err s2
         | Inr k \<Rightarrow>
            (case prop_templatesBucket (MFElist s2) of
               Inl err \<Rightarrow> start_failed err s2
             | Inr b \<Rightarrow>
                (let s3 = emit (Call ''loadFromS3'' [k, b]) s2 in
                 case loadFromS3 e k b of
                   Inl err \<Rightarrow> start_failed err s3
                 | Inr t \<Rightarrow>
                    (let s4 = emit (Assign ''catalogTemplate'' t) (s3\<lparr>catalogTemplate := t\<rparr>);
                         s5 = emit (Listen (PORT e) ''0.0.0.0'') s4 in
                     case listen e (PORT e) of
                       Inl err \<Rightarrow> start_failed err s5
                     | Inr u \<Rightarrow> s5\<lparr>listening := True\<rparr>)))))"

subsection \<open>Replies\<close>

datatype json = JBool bool | JString string | JObject "(string \<times> json) list"

text \<open>
  A reply as the server leaves it: the status and headers, the chunks written on
  \<open>reply.raw\<close>, the object given to \<open>reply.send\<close>, and whether the response was
  ended. To a HEAD request the head alone is transmitted; the record keeps what was
  written. \<open>uncaught\<close> holds an exception thrown inside a stream listener, which no
  handler of app.js catches.
\<close>

record reply =
  statusCode :: nat
  headers :: "(string \<times> string) list"
  body :: "string list"
  payload :: "json option"
  ended :: bool
  uncaught :: "error option"

definition fresh_reply :: reply where
  "fresh_reply = \<lparr>statusCode = 200, headers = [], body = [], payload = None,
                  ended = False, uncaught = None\<rparr>"

definition writeHead :: "nat \<Rightarrow> (string \<times> string) list \<Rightarrow> reply \<Rightarrow> reply" where
  "writeHead c hs r = r\<lparr>statusCode := c, headers := headers r @ hs\<rparr>"

definition raw_write :: "string \<Rightarrow> reply \<Rightarrow> reply" where
  "raw_write chunk r = r\<lparr>body := body r @ [chunk]\<rparr>"

definition raw_end :: "reply \<Rightarrow> reply" where
  "raw_end r = r\<lparr>ended := True\<rparr>"

definition reply_code :: "nat \<Rightarrow> reply \<Rightarrow> reply" where
  "reply_code c r = r\<lparr>statusCode := c\<rparr>"

definition reply_send :: "json \<Rightarrow> reply \<Rightarrow> reply" where
  "reply_send v r = r\<lparr>payload := Some v, ended := True\<rparr>"

text \<open>
  \<open>Readable.from(chunks)\<close> with the two listeners of \<open>responseStream\<close>: each chunk is
  handed to the \<open>data\<close> listener, which writes \<open>chunk.toString()\<close>; after the last
  chunk the \<open>end\<close> listener ends the response. When the \<open>data\<close> listener throws, the
  stream stops and the \<open>end\<close> listener never runs.
\<close>

fun flow :: "jsval list \<Rightarrow> reply \<Rightarrow> reply" where
  "flow [] r = raw_end r"
| "flow (chunk # chunks) r =
     (case toString chunk of
        Inl err \<Rightarrow> r\<lparr>uncaught := Some err\<rparr>
      | Inr s \<Rightarrow> flow chunks (raw_write s r))"

definition responseStream :: "jsval \<Rightarrow> nat \<Rightarrow> reply \<Rightarrow> reply" where
  "responseStream str c r = flow [str] (writeHead c [(''Content-Type'', ''text/html'')] r)"

subsection \<open>Route handlers\<close>

text \<open>
  A handler returns the exception it threw, if any, the reply as it left it, and the
  process.
\<close>

type_synonym handler = "env \<Rightarrow> reply \<Rightarrow> process \<Rightarrow> error option \<times> reply \<times> process"

definition hello :: handler where
  "hello e r s =
     (None,
      reply_send (JObject [(''message'', JString ''Welcome to the Micro-Frontends in AWS example'')])
        (reply_code 200 r),
      s)"

definition error_route :: handler where
  "error_route e r s = (Some (Error ''Error''), r, s)"

definition health :: handler where
  "health e r s = (None, reply_send (JObject [(''healthy'', JBool True)]) (reply_code 200 r), s)"

definition productdetails :: handler where
  "productdetails e r s =
     (let s1 = emit (Call ''transformTemplate'' [catalogTemplate s]) s in
      case transformTemplate e (catalogTemplate s) of
        Inl err \<Rightarrow> (Some (Error (String_of err)), r, emit (Log err) s1)
      | Inr catalogDetailspage \<Rightarrow> (None, responseStream catalogDetailspage 200 r, s1))"

definition errorHandler :: "env \<Rightarrow> error \<Rightarrow> reply \<Rightarrow> reply" where
  "errorHandler e err r = responseStream (Str (serverErrorPage e)) 500 r"

definition notFoundHandler :: "env \<Rightarrow> reply \<Rightarrow> reply" where
  "notFoundHandler e r = responseStream (Str (notFoundPage e)) 404 r"

subsection \<open>The path of a request\<close>

text \<open>
  Before it looks a route up, Fastify's router decodes the percent escapes of the path
  as \<open>decodeURI\<close> does. The escapes of the reserved characters
  \<open>; / ? : @ & = + $ , #\<close> and of \<open>%\<close> itself stay as they are written; an escaped
  byte below 128 becomes its character; escaped bytes from 128 on must form the UTF-8
  encoding of a code point, of which the decoded path keeps the bytes. A \<open>%\<close> that is
  not followed by two hexadecimal digits, or escaped bytes that are not UTF-8, make the
  decoding throw (\<open>None\<close>).
\<close>

definition hex_digit :: "char \<Rightarrow> nat option" where
  "hex_digit c =
     map_of [(CHR ''0'', 0), (CHR ''1'', 1), (CHR ''2'', 2), (CHR ''3'', 3), (CHR ''4'', 4),
             (CHR ''5'', 5), (CHR ''6'', 6), (CHR ''7'', 7), (CHR ''8'', 8), (CHR ''9'', 9),
             (CHR ''a'', 10), (CHR ''b'', 11), (CHR ''c'', 12), (CHR ''d'', 13), (CHR ''e'', 14),
             (CHR ''f'', 15),
             (CHR ''A'', 10), (CHR ''B'', 11), (CHR ''C'', 12), (CHR ''D'', 13), (CHR ''E'', 14),
             (CHR ''F'', 15)] c"

definition hex_octet :: "char \<Rightarrow> char \<Rightarrow> nat option" where
  "hex_octet h l =
     (case hex_digit h of
        None \<Rightarrow> None
      | Some a \<Rightarrow> (case hex_digit l of None \<Rightarrow> None | Some b \<Rightarrow> Some (16 * a + b)))"

text \<open>A path cut into its plain characters and its escapes \<open>%hl\<close> with their values.\<close>

datatype piece = Plain char | Escaped char char nat

fun pieces :: "string \<Rightarrow> piece list option" where
  "pieces [] = Some []"
| "pieces (c # cs) =
     (if c = CHR ''%'' then
        (case cs of
           h # l # rest \<Rightarrow>
             (case hex_octet h l of
                None \<Rightarrow> None
              | Some b \<Rightarrow> map_option ((#) (Escaped h l b)) (pieces rest))
         | _ \<Rightarrow> None)
      else map_option ((#) (Plain c)) (pieces cs))"

definition kept_escaped :: "char list" where
  "kept_escaped = '';/?:@&=+$,#%''"

definition continuation :: "nat \<Rightarrow> bool" where
  "continuation b = (128 \<le> b \<and> b \<le> 191)"

text \<open>The second byte of a three-byte and of a four-byte sequence, given the first.\<close>

definition second_of_3 :: "nat \<Rightarrow> nat \<Rightarrow> bool" where
  "second_of_3 b c =
     (if b = 224 then 160 \<le> c \<and> c \<le> 191
      else if b = 237 then 128 \<le> c \<and> c \<le> 159
      else continuation c)"

definition second_of_4 :: "nat \<Rightarrow> nat \<Rightarrow> bool" where
  "second_of_4 b c =
     (if b = 240 then 144 \<le> c \<and> c \<le> 191
      else if b = 244 then 128 \<le> c \<and> c \<le> 143
      else continuation c)"

fun decode_pieces :: "piece list \<Rightarrow> string option" where
  "decode_pieces [] = Some []"
| "decode_pieces (Plain c # ps) = map_option ((#) c) (decode_pieces ps)"
| "decode_pieces (Escaped h l b # ps) =
     (if b < 128 then
        (if char_of b \<in> set kept_escaped
         then map_option ((@) [CHR ''%'', h, l]) (decode_pieces ps)
         else map_option ((#) (char_of b)) (decode_pieces ps))
      else if 194 \<le> b \<and> b \<le> 223 then
        (case ps of
           Escaped h1 l1 c1 # rest \<Rightarrow>
             (if continuation c1
              then map_option ((@) (map char_of [b, c1])) (decode_pieces rest)
              else None)
         | _ \<Rightarrow> None)
      else if 224 \<le> b \<and> b \<le> 239 then
        (case ps of
           Escaped h1 l1 c1 # Escaped h2 l2 c2 # rest \<Rightarrow>
             (if second_of_3 b c1 \<and> continuation c2
              then map_option ((@) (map char_of [b, c1, c2])) (decode_pieces rest)
              else None)
         | _ \<Rightarrow> None)
      else if 240 \<le> b \<and> b \<le> 244 then
        (case ps of
           Escaped h1 l1 c1 # Escaped h2 l2 c2 # Escaped h3 l3 c3 # rest \<Rightarrow>
             (if second_of_4 b c1 \<and> continuation c2 \<and> continuation c3
              then map_option ((@) (map char_of [b, c1, c2, c3])) (decode_pieces rest)
              else None)
         | _ \<Rightarrow> None)
      else None)"

definition safeDecodeURI :: "string \<Rightarrow> string option" where
  "safeDecodeURI p = (case pieces p of None \<Rightarrow> None | Some ps \<Rightarrow> decode_pieces ps)"

subsection \<open>Dispatch\<close>

text \<open>
  A request: its method and the path of its URL as the client sent it, percent-encoded,
  starting with \<open>/\<close> and without the query string. Request headers and bodies play no
  part in app.js and are not modelled.
\<close>

record request =
  http_method :: string
  path :: string

datatype route = Hello | ErrorRoute | Health | Productdetails

text \<open>The routes, in the order app.js registers them.\<close>

definition routes :: "((string \<times> string) \<times> route) list" where
  "routes =
     [((''GET'', ''/hello''), Hello),
      ((''GET'', ''/error''), ErrorRoute),
      ((''GET'', ''/health''), Health),
      ((''GET'', ''/productdetails''), Productdetails)]"

text \<open>
  For every route registered with \<open>fastify.get\<close> Fastify also exposes the route for
  HEAD, with the same handler.
\<close>

definition exposed_routes :: "((string \<times> string) \<times> route) list" where
  "exposed_routes = routes @ map (\<lambda>((m, p), rt). ((''HEAD'', p), rt)) routes"

text \<open>
  The router keeps one tree of routes for each method that has a route; a request
  whose method has none is not decoded and matches nothing.
\<close>

definition has_tree :: "string \<Rightarrow> bool" where
  "has_tree m = (m \<in> set (map (fst \<circ> fst) exposed_routes))"

text \<open>
  A request is looked up by its method and its decoded path; the match is exact. A path
  that cannot be decoded is a bad URL, which Fastify answers itself.
\<close>

definition bad_url :: "request \<Rightarrow> bool" where
  "bad_url req = (has_tree (http_method req) \<and> safeDecodeURI (path req) = None)"

definition find_route :: "request \<Rightarrow> route option" where
  "find_route req =
     (if has_tree (http_method req) then
        (case safeDecodeURI (path req) of
           None \<Rightarrow> None
         | Some p \<Rightarrow> map_of exposed_routes (http_method req, p))
      else None)"

fun handler_of :: "route \<Rightarrow> handler" where
  "handler_of Hello = hello"
| "handler_of ErrorRoute = error_route"
| "handler_of Health = health"
| "handler_of Productdetails = productdetails"

text \<open>
  Fastify's answer to a bad URL: status 400 and a JSON text that quotes the path; no
  handler of app.js runs.
\<close>

definition digit :: "nat \<Rightarrow> char" where
  "digit n = ''0123456789'' ! (n mod 10)"

function decimal :: "nat \<Rightarrow> string" where
  "decimal n = (if n < 10 then [digit n] else decimal (n div 10) @ [digit n])"
  by pat_completeness auto
termination
  by (relation "measure (\<lambda>n. n)") auto

declare decimal.simps [simp del]

definition quoted :: "string \<Rightarrow> string" where
  "quoted s = [CHR 0x22] @ s @ [CHR 0x22]"

definition bad_url_body :: "string \<Rightarrow> string" where
  "bad_url_body p =
     ''{'' @ quoted ''error'' @ '':'' @ quoted ''Bad Request'' @ '',''
       @ quoted ''code'' @ '':'' @ quoted ''FST_ERR_BAD_URL'' @ '',''
       @ quoted ''message'' @ '':''
       @ quoted ([CHR 0x27] @ p @ [CHR 0x27] @ '' is not a valid url component'') @ '',''
       @ quoted ''statusCode'' @ '':400}''"

definition onBadUrl :: "string \<Rightarrow> reply \<Rightarrow> reply" where
  "onBadUrl p r =
     raw_end (raw_write (bad_url_body p)
       (writeHead 400 [(''Content-Type'', ''application/json''),
                       (''Content-Length'', decimal (length (bad_url_body p)))] r))"

text \<open>
  An exception that no handler catches ends the process with status 1: it listens no
  more.
\<close>

definition uncaught_exception :: "reply \<times> process \<Rightarrow> reply \<times> process" where
  "uncaught_exception rs =
     (case uncaught (fst rs) of
        None \<Rightarrow> rs
      | Some err \<Rightarrow> (fst rs, (emit (Exit 1) (snd rs))\<lparr>listening := False, exit_code := Some 1\<rparr>))"

text \<open>
  One request. A bad URL is answered by Fastify. Otherwise the handler of the matching
  route runs on a fresh reply; an exception it throws goes to the error handler with
  the same reply; a request that matches no route goes to the not-found handler. An
  exception thrown later, in a listener of the response stream, is caught by nothing.
\<close>

definition handle_request :: "env \<Rightarrow> request \<Rightarrow> process \<Rightarrow> reply \<times> process" where
  "handle_request e req s =
     uncaught_exception
       (if bad_url req then (onBadUrl (path req) fresh_reply, s)
        else
          (case find_route req of
             None \<Rightarrow> (notFoundHandler e fresh_reply, s)
           | Some rt \<Rightarrow>
              (case handler_of rt e fresh_reply s of
                 (Some err, r, s') \<Rightarrow> (errorHandler e err r, s')
               | (None, r, s') \<Rightarrow> (r, s'))))"

text \<open>Requests reach the handlers only while the process listens and has not exited.\<close>

definition serve :: "env \<Rightarrow> request \<Rightarrow> process \<Rightarrow> (reply \<times> process) option" where
  "serve e req s =
     (if listening s \<and> exit_code s = None then Some (handle_request e req s) else None)"

subsection \<open>Reading a trace\<close>

fun is_write :: "event \<Rightarrow> bool" where
  "is_write (Assign x v) = True"
| "is_write ev = False"

fun is_store_io :: "event \<Rightarrow> bool" where
  "is_store_io (Call f args) = (f = ''init'' \<or> f = ''loadFromS3'')"
| "is_store_io ev = False"

fun is_listen :: "event \<Rightarrow> bool" where
  "is_listen (Listen p h) = True"
| "is_listen ev = False"

fun writes_to :: "string \<Rightarrow> event \<Rightarrow> bool" where
  "writes_to x (Assign y v) = (x = y)"
| "writes_to x ev = False"

subsection \<open>A concrete deployment\<close>

definition demo_registry :: registry where
  "demo_registry = \<lparr>template = ''templates/catalog.html'', templatesBucket = ''mfe-static-assets''\<rparr>"

definition demo_template :: string where
  "demo_template = ''<div id=reviews></div>''"

fun demo_loadFromS3 :: "jsval \<Rightarrow> jsval \<Rightarrow> error + jsval" where
  "demo_loadFromS3 (Str k) (Str b) =
     (if k = ''templates/catalog.html'' \<and> b = ''mfe-static-assets''
      then Inr (Str demo_template) else Inl (Error ''NoSuchKey''))"
| "demo_loadFromS3 k b = Inl (TypeError ''invalid argument'')"

fun demo_transformTemplate :: "jsval \<Rightarrow> error + jsval" where
  "demo_transformTemplate (Str t) = Inr (Str (''<html>'' @ t @ ''</html>''))"
| "demo_transformTemplate v = Inl (TypeError ''template is not a string'')"

fun demo_listen :: "string + nat \<Rightarrow> error + unit" where
  "demo_listen p = Inr ()"

definition demo_env :: env where
  "demo_env = \<lparr>env_PORT = None, init = Inr (Obj demo_registry), loadFromS3 = demo_loadFromS3,
               listen = demo_listen, transformTemplate = demo_transformTemplate,
               notFoundPage = ''<h1>Not found</h1>'', serverErrorPage = ''<h1>Server error</h1>''\<rparr>"

fun demo_failing_transformTemplate :: "jsval \<Rightarrow> error + jsval" where
  "demo_failing_transformTemplate v = Inl (Error ''TemplateMalformed'')"

definition ready :: process where
  "ready = start demo_env initial"

definition GET :: "string \<Rightarrow> request" where
  "GET p = \<lparr>http_method = ''GET'', path = p\<rparr>"




section \<open>Properties\<close>

subsection \<open>Auxiliary facts\<close>

lemmas reply_defs = responseStream_def writeHead_def raw_write_def raw_end_def
  reply_code_def reply_send_def fresh_reply_def errorHandler_def notFoundHandler_def

lemma ready_eq:
  "ready = \<lparr>MFElist = Obj demo_registry, catalogTemplate = Str demo_template, listening = True,
     exit_code = None,
     trace = [Call ''init'' [], Assign ''MFElist'' (Obj demo_registry),
              Call ''loadFromS3'' [Str ''templates/catalog.html'', Str ''mfe-static-assets''],
              Assign ''catalogTemplate'' (Str demo_template), Listen (Inr 3000) ''0.0.0.0'']\<rparr>"
  by (simp add: ready_def start_def demo_env_def initial_def emit_def demo_registry_def PORT_def)

text \<open>A path without escapes is decoded to itself.\<close>

lemma pieces_plain: "CHR ''%'' \<notin> set p \<Longrightarrow> pieces p = Some (map Plain p)"
  by (induction p) auto

lemma decode_pieces_plain: "decode_pieces (map Plain p) = Some p"
  by (induction p) auto

lemma safeDecodeURI_plain: "CHR ''%'' \<notin> set p \<Longrightarrow> safeDecodeURI p = Some p"
  by (simp add: safeDecodeURI_def pieces_plain decode_pieces_plain)

lemma has_tree_GET: "has_tree ''GET''"
  by (simp add: has_tree_def exposed_routes_def routes_def)

lemma find_route_productdetails: "find_route (GET ''/productdetails'') = Some Productdetails"
  by (simp add: find_route_def GET_def has_tree_GET safeDecodeURI_plain exposed_routes_def
        routes_def)

lemma find_route_error: "find_route (GET ''/error'') = Some ErrorRoute"
  by (simp add: find_route_def GET_def has_tree_GET safeDecodeURI_plain exposed_routes_def
        routes_def)

lemma find_route_health: "find_route (GET ''/health'') = Some Health"
  by (simp add: find_route_def GET_def has_tree_GET safeDecodeURI_plain exposed_routes_def
        routes_def)

lemma found_not_bad_url: "find_route req = Some rt \<Longrightarrow> \<not> bad_url req"
  by (auto simp: find_route_def bad_url_def split: if_splits option.splits)






lemma handle_request_found:
  "find_route req = Some rt \<Longrightarrow>
     handle_request e req s =
       uncaught_exception
         (case handler_of rt e fresh_reply s of
            (Some err, r, s') \<Rightarrow> (errorHandler e err r, s')
          | (None, r, s') \<Rightarrow> (r, s'))"
  by (simp add: handle_request_def found_not_bad_url)

lemma handle_request_not_found:
  "\<not> bad_url req \<Longrightarrow> find_route req = None \<Longrightarrow>
     handle_request e req s = uncaught_exception (notFoundHandler e fresh_reply, s)"
  by (simp add: handle_request_def)

lemma handle_request_bad_url:
  "bad_url req \<Longrightarrow>
     handle_request e req s = uncaught_exception (onBadUrl (path req) fresh_reply, s)"
  by (simp add: handle_request_def)

text \<open>A handler that throws has not touched the reply.\<close>

lemma handler_throws_untouched:
  "handler_of rt e r s = (Some err, r', s') \<Longrightarrow> r' = r"
  by (cases rt) (auto simp: hello_def error_route_def health_def productdetails_def Let_def
       split: sum.splits)

lemma errorHandler_fresh:
  "errorHandler e err fresh_reply =
     \<lparr>statusCode = 500, headers = [(''Content-Type'', ''text/html'')],
       body = [serverErrorPage e], payload = None, ended = True, uncaught = None\<rparr>"
  by (simp add: reply_defs)

text \<open>No request handler assigns the cached variables or calls the two loaders.\<close>

lemma handle_request_cache:
  "handle_request e req s = (r, s') \<Longrightarrow>
     MFElist s' = MFElist s \<and> catalogTemplate s' = catalogTemplate s
     \<and> filter is_write (trace s') = filter is_write (trace s)
     \<and> filter is_store_io (trace s') = filter is_store_io (trace s)"
proof -
  assume h: "handle_request e req s = (r, s')"
  show ?thesis
  proof (cases "bad_url req")
    case True
    with h show ?thesis
      by (auto simp: handle_request_bad_url uncaught_exception_def emit_def
            split: option.splits)
  next
    case False
    show ?thesis
    proof (cases "find_route req")
      case None
      with h False show ?thesis
        by (auto simp: handle_request_not_found uncaught_exception_def emit_def
              split: option.splits)
    next
      case (Some rt)
      with h show ?thesis
        by (cases rt)
           (auto simp: handle_request_found uncaught_exception_def hello_def error_route_def
              health_def productdetails_def emit_def Let_def split: sum.splits option.splits)
    qed
  qed
qed

text \<open>A startup that ends listening has assigned each cached variable once.\<close>

lemma start_writes:
  "listening (start e initial) \<Longrightarrow>
     length (filter (writes_to ''MFElist'') (trace (start e initial))) = 1
     \<and> length (filter (writes_to ''catalogTemplate'') (trace (start e initial))) = 1"
  by (auto simp: start_def start_failed_def emit_def initial_def Let_def split: sum.splits)

subsection \<open>C1: the product details route\<close>

text \<open>
  C1, as amended. For a \<open>GET /productdetails\<close> request the handler calls the template
  transformer with the cached template as its only argument; when the transformer
  resolves with a string, that string is streamed with status 200 and content type
  \<open>text/html\<close>, and the response is ended.
\<close>

theorem productdetails_streams_transformed_template:
  assumes "transformTemplate e (catalogTemplate s) = Inr (Str html)"
  shows "handle_request e (GET ''/productdetails'') s =
     (\<lparr>statusCode = 200, headers = [(''Content-Type'', ''text/html'')], body = [html],
       payload = None, ended = True, uncaught = None\<rparr>,
      s\<lparr>trace := trace s @ [Call ''transformTemplate'' [catalogTemplate s]]\<rparr>)"
  using assms
  by (simp add: handle_request_found [OF find_route_productdetails] productdetails_def emit_def
        reply_defs uncaught_exception_def)

text \<open>C1, witness: the demo deployment after its startup.\<close>

theorem productdetails_streams_transformed_template_witness:
  "transformTemplate demo_env (catalogTemplate ready) = Inr (Str ''<html><div id=reviews></div></html>'')
   \<and> handle_request demo_env (GET ''/productdetails'') ready =
     (\<lparr>statusCode = 200, headers = [(''Content-Type'', ''text/html'')],
       body = [''<html><div id=reviews></div></html>''],
       payload = None, ended = True, uncaught = None\<rparr>,
      ready\<lparr>trace := trace ready @ [Call ''transformTemplate'' [Str ''<div id=reviews></div>'']]\<rparr>)"
  using productdetails_streams_transformed_template
          [of demo_env ready "''<html><div id=reviews></div></html>''"]
  by (simp add: ready_eq demo_env_def demo_template_def)

text \<open>
  C1, counterexample to the claim as stated (the transformer is invoked on the cached
  pair of registry and template): in the demo deployment the only call made by the
  handler has the template as its single argument; the registry is not passed.
\<close>

theorem transformer_called_on_pair_counterexample:
  "trace (snd (handle_request demo_env (GET ''/productdetails'') ready)) =
     trace ready @ [Call ''transformTemplate'' [Str demo_template]]
   \<and> Call ''transformTemplate'' [MFElist ready, catalogTemplate ready]
       \<notin> set (trace (snd (handle_request demo_env (GET ''/productdetails'') ready)))"
  by (simp add: handle_request_found [OF find_route_productdetails] productdetails_def emit_def
        reply_defs uncaught_exception_def ready_eq demo_env_def demo_template_def)

subsection \<open>C2: exceptions thrown by route handlers\<close>

text \<open>
  C2. Whenever the handler of the matching route throws, and in particular whenever the
  template transformer fails while \<open>/productdetails\<close> is composed, the client receives
  status 500 with the fixed error page as the whole body: no part of a composed page
  and nothing of the error.
\<close>

theorem thrown_error_gives_fixed_500:
  "(find_route req = Some rt \<and> fst (handler_of rt e fresh_reply s) = Some err
      \<longrightarrow> fst (handle_request e req s) =
            \<lparr>statusCode = 500, headers = [(''Content-Type'', ''text/html'')],
              body = [serverErrorPage e], payload = None, ended = True, uncaught = None\<rparr>)
   \<and> (transformTemplate e (catalogTemplate s) = Inl err
      \<longrightarrow> fst (handle_request e (GET ''/productdetails'') s) =
            \<lparr>statusCode = 500, headers = [(''Content-Type'', ''text/html'')],
              body = [serverErrorPage e], payload = None, ended = True, uncaught = None\<rparr>)"
proof (intro conjI impI)
  assume a: "find_route req = Some rt \<and> fst (handler_of rt e fresh_reply s) = Some err"
  obtain r' s' where h: "handler_of rt e fresh_reply s = (Some err, r', s')"
    using a by (cases "handler_of rt e fresh_reply s") auto
  then have "r' = fresh_reply" by (rule handler_throws_untouched)
  with a h show "fst (handle_request e req s) =
      \<lparr>statusCode = 500, headers = [(''Content-Type'', ''text/html'')],
        body = [serverErrorPage e], payload = None, ended = True, uncaught = None\<rparr>"
    by (simp add: handle_request_found errorHandler_fresh uncaught_exception_def)
next
  assume "transformTemplate e (catalogTemplate s) = Inl err"
  then show "fst (handle_request e (GET ''/productdetails'') s) =
      \<lparr>statusCode = 500, headers = [(''Content-Type'', ''text/html'')],
        body = [serverErrorPage e], payload = None, ended = True, uncaught = None\<rparr>"
    by (simp add: handle_request_found [OF find_route_productdetails] productdetails_def
          errorHandler_fresh uncaught_exception_def)
qed

text \<open>
  C2, witness: the demo deployment with a transformer that rejects every template; the
  handler of \<open>/productdetails\<close> throws and the client gets the error page.
\<close>

theorem thrown_error_gives_fixed_500_witness:
  "find_route (GET ''/productdetails'') = Some Productdetails
   \<and> fst (handler_of Productdetails
            (demo_env\<lparr>transformTemplate := demo_failing_transformTemplate\<rparr>) fresh_reply ready)
       = Some (Error ''Error: TemplateMalformed'')
   \<and> transformTemplate (demo_env\<lparr>transformTemplate := demo_failing_transformTemplate\<rparr>)
        (catalogTemplate ready) = Inl (Error ''TemplateMalformed'')
   \<and> fst (handle_request (demo_env\<lparr>transformTemplate := demo_failing_transformTemplate\<rparr>)
            (GET ''/productdetails'') ready) =
       \<lparr>statusCode = 500, headers = [(''Content-Type'', ''text/html'')],
         body = [''<h1>Server error</h1>''], payload = None, ended = True, uncaught = None\<rparr>"
  using thrown_error_gives_fixed_500
          [of "GET ''/productdetails''" Productdetails
              "demo_env\<lparr>transformTemplate := demo_failing_transformTemplate\<rparr>" ready
              "Error ''Error: TemplateMalformed''"]
        thrown_error_gives_fixed_500
          [of "GET ''/productdetails''" Productdetails
              "demo_env\<lparr>transformTemplate := demo_failing_transformTemplate\<rparr>" ready
              "Error ''TemplateMalformed''"]
  by (simp add: find_route_productdetails productdetails_def demo_env_def)

subsection \<open>C3: a failed startup\<close>

text \<open>
  C3. When the registry load fails, or the registry is loaded and the template fetch
  fails, the process exits with status 1, is not listening, never called
  \<open>fastify.listen\<close>, and serves no request.
\<close>

theorem startup_failure_exits_without_listening:
  assumes "init e = Inl err
     \<or> (init e = Inr v \<and> prop_template v = Inr k \<and> prop_templatesBucket v = Inr b
          \<and> loadFromS3 e k b = Inl err)"
  shows "exit_code (start e initial) = Some 1
     \<and> \<not> listening (start e initial)
     \<and> filter is_listen (trace (start e initial)) = []
     \<and> serve e req (start e initial) = None"
  using assms
  by (auto simp: start_def start_failed_def emit_def initial_def serve_def)

text \<open>
  C3, witness: the demo deployment whose registry names a template key that the bucket
  does not hold; the fetch fails after the registry was loaded.
\<close>

theorem startup_failure_exits_without_listening_witness:
  "init (demo_env\<lparr>init := Inr (Obj (demo_registry\<lparr>template := ''missing.html''\<rparr>))\<rparr>)
     = Inr (Obj (demo_registry\<lparr>template := ''missing.html''\<rparr>))
   \<and> prop_template (Obj (demo_registry\<lparr>template := ''missing.html''\<rparr>)) = Inr (Str ''missing.html'')
   \<and> prop_templatesBucket (Obj (demo_registry\<lparr>template := ''missing.html''\<rparr>))
       = Inr (Str ''mfe-static-assets'')
   \<and> loadFromS3 (demo_env\<lparr>init := Inr (Obj (demo_registry\<lparr>template := ''missing.html''\<rparr>))\<rparr>)
        (Str ''missing.html'') (Str ''mfe-static-assets'') = Inl (Error ''NoSuchKey'')
   \<and> exit_code (start (demo_env\<lparr>init := Inr (Obj (demo_registry\<lparr>template := ''missing.html''\<rparr>))\<rparr>)
        initial) = Some 1
   \<and> \<not> listening (start (demo_env\<lparr>init := Inr (Obj (demo_registry\<lparr>template := ''missing.html''\<rparr>))\<rparr>)
        initial)
   \<and> filter is_listen
        (trace (start (demo_env\<lparr>init := Inr (Obj (demo_registry\<lparr>template := ''missing.html''\<rparr>))\<rparr>)
           initial)) = []
   \<and> serve (demo_env\<lparr>init := Inr (Obj (demo_registry\<lparr>template := ''missing.html''\<rparr>))\<rparr>)
        (GET ''/health'')
        (start (demo_env\<lparr>init := Inr (Obj (demo_registry\<lparr>template := ''missing.html''\<rparr>))\<rparr>)
           initial) = None"
  using startup_failure_exits_without_listening
          [of "demo_env\<lparr>init := Inr (Obj (demo_registry\<lparr>template := ''missing.html''\<rparr>))\<rparr>"
              "Error ''NoSuchKey''"
              "Obj (demo_registry\<lparr>template := ''missing.html''\<rparr>)"
              "Str ''missing.html''" "Str ''mfe-static-assets''" "GET ''/health''"]
  by (simp add: demo_env_def demo_registry_def)

subsection \<open>C4: the order of the startup steps\<close>

text \<open>
  C4. A startup in which every step succeeds performs, in this order: the registry
  load; the template fetch, to which \<open>start\<close> passes the template key and the bucket
  that the loaded registry names; and only then \<open>fastify.listen\<close>. When \<open>listen\<close> is
  called the cache is populated: \<open>MFElist\<close> holds the loaded registry and
  \<open>catalogTemplate\<close> the fetched template.
\<close>

theorem start_order:
  assumes "init e = Inr (Obj r)"
    and "loadFromS3 e (Str (template r)) (Str (templatesBucket r)) = Inr t"
    and "listen e (PORT e) = Inr u"
  shows "start e initial =
     \<lparr>MFElist = Obj r, catalogTemplate = t, listening = True, exit_code = None,
       trace = [Call ''init'' [],
                Assign ''MFElist'' (Obj r),
                Call ''loadFromS3'' [Str (template r), Str (templatesBucket r)],
                Assign ''catalogTemplate'' t,
                Listen (PORT e) ''0.0.0.0'']\<rparr>"
  using assms by (simp add: start_def emit_def initial_def)

text \<open>C4, witness: the startup of the demo deployment.\<close>

theorem start_order_witness:
  "init demo_env = Inr (Obj demo_registry)
   \<and> loadFromS3 demo_env (Str (template demo_registry)) (Str (templatesBucket demo_registry))
       = Inr (Str demo_template)
   \<and> listen demo_env (PORT demo_env) = Inr ()
   \<and> start demo_env initial =
     \<lparr>MFElist = Obj demo_registry, catalogTemplate = Str demo_template, listening = True,
       exit_code = None,
       trace = [Call ''init'' [],
                Assign ''MFElist'' (Obj demo_registry),
                Call ''loadFromS3'' [Str ''templates/catalog.html'', Str ''mfe-static-assets''],
                Assign ''catalogTemplate'' (Str demo_template),
                Listen (Inr 3000) ''0.0.0.0'']\<rparr>"
  using start_order [of demo_env demo_registry "Str demo_template" "()"]
  by (simp add: demo_env_def demo_registry_def PORT_def)

subsection \<open>C5: the cache is written at startup only\<close>

text \<open>
  C5. A startup that ends listening has assigned \<open>MFElist\<close> exactly once and
  \<open>catalogTemplate\<close> exactly once. Handling a request, whatever the request and the
  state, leaves both variables as they were, assigns nothing and calls neither the
  registry loader nor the template loader.
\<close>

theorem cache_written_once_then_read_only:
  "(listening (start e initial) \<longrightarrow>
       length (filter (writes_to ''MFElist'') (trace (start e initial))) = 1
     \<and> length (filter (writes_to ''catalogTemplate'') (trace (start e initial))) = 1)
   \<and> MFElist (snd (handle_request e req s)) = MFElist s
   \<and> catalogTemplate (snd (handle_request e req s)) = catalogTemplate s
   \<and> filter is_write (trace (snd (handle_request e req s))) = filter is_write (trace s)
   \<and> filter is_store_io (trace (snd (handle_request e req s))) = filter is_store_io (trace s)"
  using start_writes [of e]
        handle_request_cache [of e req s "fst (handle_request e req s)" "snd (handle_request e req s)"]
  by simp

text \<open>C5, witness: the demo deployment serving \<open>/productdetails\<close> after its startup.\<close>

theorem cache_written_once_then_read_only_witness:
  "listening (start demo_env initial)
   \<and> length (filter (writes_to ''MFElist'') (trace (start demo_env initial))) = 1
   \<and> length (filter (writes_to ''catalogTemplate'') (trace (start demo_env initial))) = 1
   \<and> MFElist (snd (handle_request demo_env (GET ''/productdetails'') ready)) = Obj demo_registry
   \<and> catalogTemplate (snd (handle_request demo_env (GET ''/productdetails'') ready))
       = Str demo_template
   \<and> filter is_write (trace (snd (handle_request demo_env (GET ''/productdetails'') ready)))
       = [Assign ''MFElist'' (Obj demo_registry), Assign ''catalogTemplate'' (Str demo_template)]
   \<and> filter is_store_io (trace (snd (handle_request demo_env (GET ''/productdetails'') ready)))
       = [Call ''init'' [],
          Call ''loadFromS3'' [Str ''templates/catalog.html'', Str ''mfe-static-assets'']]"
  using cache_written_once_then_read_only [of demo_env "GET ''/productdetails''" ready] ready_eq
  by (simp add: ready_def)

subsection \<open>C7: the health route\<close>

text \<open>
  C7. A \<open>GET /health\<close> request is answered with status 200 and the object
  \<open>{healthy: true}\<close>, in every state of the process and whatever the imported modules
  do; no exception is raised, and neither the reply nor the process depends on the
  cached variables.
\<close>

theorem health_always_ok:
  "handle_request e (GET ''/health'') s =
     (\<lparr>statusCode = 200, headers = [], body = [],
       payload = Some (JObject [(''healthy'', JBool True)]), ended = True, uncaught = None\<rparr>, s)"
  by (simp add: handle_request_found [OF find_route_health] health_def reply_defs
        uncaught_exception_def)

text \<open>C7, witness: the health route before any startup step has run.\<close>

theorem health_always_ok_witness:
  "MFElist initial = Undefined \<and> catalogTemplate initial = Undefined
   \<and> handle_request demo_env (GET ''/health'') initial =
     (\<lparr>statusCode = 200, headers = [], body = [],
       payload = Some (JObject [(''healthy'', JBool True)]), ended = True, uncaught = None\<rparr>,
      initial)"
  using health_always_ok [of demo_env initial] by (simp add: initial_def)

subsection \<open>C8: unmatched paths\<close>




subsection \<open>C9: closing the response\<close>

text \<open>
  C9, as amended. \<open>responseStream\<close> writes the head and then, when the body converts to
  text, writes it as one chunk and ends the response. The response is ended by the
  \<open>end\<close> listener only: when the conversion throws inside the \<open>data\<close> listener, the
  head has been written, nothing else is, and the response is left as open as it was.
\<close>

theorem responseStream_closes_after_text:
  "(toString str = Inr text \<longrightarrow>
      responseStream str c r =
        r\<lparr>statusCode := c, headers := headers r @ [(''Content-Type'', ''text/html'')],
          body := body r @ [text], ended := True\<rparr>)
   \<and> (toString str = Inl err \<longrightarrow>
      responseStream str c r =
        r\<lparr>statusCode := c, headers := headers r @ [(''Content-Type'', ''text/html'')],
          uncaught := Some err\<rparr>)"
  by (simp add: reply_defs)

text \<open>C9, witness: a page streamed on a fresh reply.\<close>

theorem responseStream_closes_after_text_witness:
  "toString (Str ''<h1>Not found</h1>'') = Inr ''<h1>Not found</h1>''
   \<and> responseStream (Str ''<h1>Not found</h1>'') 404 fresh_reply =
     \<lparr>statusCode = 404, headers = [(''Content-Type'', ''text/html'')],
       body = [''<h1>Not found</h1>''], payload = None, ended = True, uncaught = None\<rparr>
   \<and> toString Undefined = Inl (TypeError ''Cannot read properties of undefined'')
   \<and> responseStream Undefined 404 fresh_reply =
     \<lparr>statusCode = 404, headers = [(''Content-Type'', ''text/html'')],
       body = [], payload = None, ended = False,
       uncaught = Some (TypeError ''Cannot read properties of undefined'')\<rparr>"
  using responseStream_closes_after_text
          [of "Str ''<h1>Not found</h1>''" "''<h1>Not found</h1>''" 404 fresh_reply]
        responseStream_closes_after_text
          [of Undefined _ 404 fresh_reply "TypeError ''Cannot read properties of undefined''"]
  by (simp add: fresh_reply_def)

text \<open>
  C9, counterexample to the claim as stated (the response is closed on every exit path):
  \<open>responseStream(undefined, 200, reply)\<close> on a fresh reply writes the head with status
  200 and never ends the response.
\<close>

theorem responseStream_always_closes_counterexample:
  "statusCode (responseStream Undefined 200 fresh_reply) = 200
   \<and> headers (responseStream Undefined 200 fresh_reply) = [(''Content-Type'', ''text/html'')]
   \<and> \<not> ended (responseStream Undefined 200 fresh_reply)"
  by (simp add: reply_defs)

subsection \<open>C10: the error route\<close>

text \<open>
  C10. \<open>GET /error\<close> is a registered route whose handler throws in every state; the
  request is answered with status 500 and the fixed error page, which is not the
  answer of the not-found handler.
\<close>

theorem error_route_gives_500:
  "find_route (GET ''/error'') = Some ErrorRoute
   \<and> handler_of ErrorRoute e fresh_reply s = (Some (Error ''Error''), fresh_reply, s)
   \<and> handle_request e (GET ''/error'') s =
       (\<lparr>statusCode = 500, headers = [(''Content-Type'', ''text/html'')],
         body = [serverErrorPage e], payload = None, ended = True, uncaught = None\<rparr>, s)
   \<and> fst (handle_request e (GET ''/error'') s) \<noteq> notFoundHandler e fresh_reply"
  by (simp add: handle_request_found [OF find_route_error] find_route_error error_route_def
        reply_defs uncaught_exception_def)

text \<open>C10, witness: \<open>GET /error\<close> in the demo deployment.\<close>

theorem error_route_gives_500_witness:
  "handle_request demo_env (GET ''/error'') ready =
       (\<lparr>statusCode = 500, headers = [(''Content-Type'', ''text/html'')],
         body = [''<h1>Server error</h1>''], payload = None, ended = True, uncaught = None\<rparr>,
        ready)
   \<and> statusCode (fst (handle_request demo_env (GET ''/error'') ready)) \<noteq> 404"
  using error_route_gives_500 [of demo_env ready]
  by (simp add: demo_env_def)

end
